theory Spec2Isabelle
  imports Complex_Main
begin

section \<open>Errors raised by the program\<close>

text \<open>
  Every exception the modelled code can raise is a value of this type; a fallible
  function returns \<open>error + 'a\<close> with \<open>Inl\<close> for the raised exception.
\<close>

datatype error =
    StopIteration
  | IndexError
  | KeyError
  | TypeError
  | AttributeError
  | ValueError
  | OverflowError
  | InvalidOperation
  | Overflow
  | HTTPStatusError int
  | TransportError
  | RuntimeError string
  | FileNotFoundError
  | RetryError
  | OtherError string

section \<open>Sliding-window rate limiter (expensify/rate\_limiter.py)\<close>

text \<open>
  Instants of the monotonic clock are rationals: the arithmetic of the limiter
  (subtraction, comparison, maximum) is modelled exactly, without the rounding of
  binary floating point.
\<close>

type_synonym instant = rat

record limiter_config =
  short_limit :: int
  short_window :: rat
  long_limit :: int
  long_window :: rat

definition default_config :: limiter_config where
  "default_config =
     \<lparr>short_limit = 5, short_window = 10, long_limit = 20, long_window = 60\<rparr>"

text \<open>\<open>RateLimiter._prune\<close>: pop from the left while the head is older than the cutoff.\<close>

definition prune :: "limiter_config \<Rightarrow> instant \<Rightarrow> instant list \<Rightarrow> instant list" where
  "prune cfg now ts = (let cutoff = now - long_window cfg in dropWhile (\<lambda>t. t < cutoff) ts)"

text \<open>
  \<open>RateLimiter._wait_time\<close>. It returns the wait together with the pruned deque, since
  the call to \<open>_prune\<close> mutates the limiter. \<open>next(...)\<close> on an exhausted generator raises
  StopIteration and \<open>self._timestamps[0]\<close> on an empty deque raises IndexError.
\<close>

definition wait_time ::
  "limiter_config \<Rightarrow> instant \<Rightarrow> instant list \<Rightarrow> error + (rat \<times> instant list)" where
  "wait_time cfg now ts0 =
     (let ts = prune cfg now ts0;
          wait0 = 0;
          short_cutoff = now - short_window cfg;
          in_window = filter (\<lambda>t. t \<ge> short_cutoff) ts;
          short_count = int (length in_window);
          short_part =
            (if short_count \<ge> short_limit cfg
             then (case in_window of
                     [] \<Rightarrow> Inl StopIteration
                   | oldest_in_window # _ \<Rightarrow>
                       Inr (max wait0 (oldest_in_window + short_window cfg - now)))
             else Inr wait0)
      in case short_part of
           Inl e \<Rightarrow> Inl e
         | Inr wait1 \<Rightarrow>
             (if int (length ts) \<ge> long_limit cfg
              then (case ts of
                      [] \<Rightarrow> Inl IndexError
                    | t0 # _ \<Rightarrow> Inr (max wait1 (t0 + long_window cfg - now), ts))
              else Inr (wait1, ts)))"

text \<open>
  One pass through the body of the \<open>while True\<close> loop of \<open>RateLimiter.acquire\<close> at the
  clock reading \<open>now\<close>: either the reading is appended and the call returns, or the
  caller sleeps for the computed wait; the pruning is kept in both cases.
\<close>

datatype attempt = Admitted "instant list" | Sleep rat "instant list"

definition acquire_attempt ::
  "limiter_config \<Rightarrow> instant \<Rightarrow> instant list \<Rightarrow> error + attempt" where
  "acquire_attempt cfg now ts =
     (case wait_time cfg now ts of
        Inl e \<Rightarrow> Inl e
      | Inr (wait, ts') \<Rightarrow>
          if wait \<le> 0 then Inr (Admitted (ts' @ [now])) else Inr (Sleep wait ts'))"

text \<open>
  The clock after a sleep. \<open>asyncio.sleep(wait)\<close> returns no earlier than \<open>wait\<close> seconds
  later; by how much later is the head of \<open>lags\<close> (a negative entry counts as none).
\<close>

definition next_reading :: "instant \<Rightarrow> rat \<Rightarrow> rat list \<Rightarrow> instant" where
  "next_reading now wait lags = now + wait + (case lags of [] \<Rightarrow> 0 | l # _ \<Rightarrow> max 0 l)"

text \<open>
  The measure of the loop of \<open>acquire\<close>: the timestamps that still lie inside the short
  window plus those that still lie inside the long one. Every sleep lasts until one of
  them has left its window.
\<close>

definition pending :: "limiter_config \<Rightarrow> instant \<Rightarrow> instant list \<Rightarrow> nat" where
  "pending cfg now ts =
     length (filter (\<lambda>t. now < t + short_window cfg) ts) +
     length (filter (\<lambda>t. now < t + long_window cfg) ts)"

lemma length_filter_mono:
  "(\<And>x. x \<in> set xs \<Longrightarrow> Q x \<Longrightarrow> P x) \<Longrightarrow> length (filter Q xs) \<le> length (filter P xs)"
  by (induction xs) auto

lemma length_filter_strict:
  "(\<And>x. x \<in> set xs \<Longrightarrow> Q x \<Longrightarrow> P x) \<Longrightarrow> a \<in> set xs \<Longrightarrow> P a \<Longrightarrow> \<not> Q a
     \<Longrightarrow> length (filter Q xs) < length (filter P xs)"
proof (induction xs)
  case Nil
  then show ?case by simp
next
  case (Cons x xs)
  have mono: "length (filter Q xs) \<le> length (filter P xs)"
    using Cons.prems(1) by (intro length_filter_mono) auto
  show ?case
  proof (cases "a = x")
    case True
    with Cons.prems mono show ?thesis by auto
  next
    case False
    with Cons.prems have "a \<in> set xs" by simp
    with Cons have "length (filter Q xs) < length (filter P xs)" by auto
    with Cons.prems(1)[of x] show ?thesis by auto
  qed
qed

lemma length_filter_dropWhile: "length (filter P (dropWhile R xs)) \<le> length (filter P xs)"
  by (induction xs) auto

lemma wait_time_pruned: "wait_time cfg now ts = Inr (w, ts') \<Longrightarrow> ts' = prune cfg now ts"
  by (auto simp: wait_time_def Let_def split: if_splits list.splits sum.splits)

lemma wait_time_positive:
  assumes "wait_time cfg now ts = Inr (w, ts')" "0 < w"
  shows "\<exists>t\<in>set ts'. (w = t + short_window cfg - now \<or> w = t + long_window cfg - now)"
proof -
  have ts': "ts' = prune cfg now ts" using assms(1) by (rule wait_time_pruned)
  define win where "win = filter (\<lambda>t. t \<ge> now - short_window cfg) ts'"
  have sub: "set win \<subseteq> set ts'" by (auto simp: win_def)
  from assms show ?thesis
    unfolding wait_time_def Let_def ts'[symmetric] win_def[symmetric]
    using sub
    by (cases win; cases ts')
       (auto split: if_splits simp: max_def)
qed

lemma sleep_decreases:
  assumes "acquire_attempt cfg now ts = Inr (Sleep w ts')"
  shows "pending cfg (next_reading now w lags) ts' < pending cfg now ts"
proof -
  from assms have wt: "wait_time cfg now ts = Inr (w, ts')" and pos: "0 < w"
    by (auto simp: acquire_attempt_def split: sum.splits if_splits prod.splits)
  have ts': "ts' = prune cfg now ts" using wt by (rule wait_time_pruned)
  define now' where "now' = next_reading now w lags"
  have later: "now + w \<le> now'"
    by (auto simp: now'_def next_reading_def split: list.splits)
  from wait_time_positive[OF wt pos] obtain t where t: "t \<in> set ts'"
    and w: "w = t + short_window cfg - now \<or> w = t + long_window cfg - now" by blast
  have s_le: "length (filter (\<lambda>t. now' < t + short_window cfg) ts')
                \<le> length (filter (\<lambda>t. now < t + short_window cfg) ts')"
    using later pos by (intro length_filter_mono) auto
  have l_le: "length (filter (\<lambda>t. now' < t + long_window cfg) ts')
                \<le> length (filter (\<lambda>t. now < t + long_window cfg) ts')"
    using later pos by (intro length_filter_mono) auto
  have strict: "pending cfg now' ts' < pending cfg now ts'"
  proof -
    from w show ?thesis
    proof
      assume e: "w = t + short_window cfg - now"
      have "length (filter (\<lambda>t. now' < t + short_window cfg) ts')
              < length (filter (\<lambda>t. now < t + short_window cfg) ts')"
        using later pos t e by (intro length_filter_strict[where a = t]) auto
      with l_le show ?thesis by (simp add: pending_def)
    next
      assume e: "w = t + long_window cfg - now"
      have "length (filter (\<lambda>t. now' < t + long_window cfg) ts')
              < length (filter (\<lambda>t. now < t + long_window cfg) ts')"
        using later pos t e by (intro length_filter_strict[where a = t]) auto
      with s_le show ?thesis by (simp add: pending_def)
    qed
  qed
  have "pending cfg now ts' \<le> pending cfg now ts"
    unfolding ts' prune_def Let_def pending_def
    by (intro add_mono length_filter_dropWhile)
  with strict show ?thesis by (simp add: now'_def)
qed

text \<open>
  \<open>RateLimiter.acquire\<close>: the \<open>while True\<close> loop, entered at the clock reading \<open>now\<close>. It
  returns the reading at which the call was admitted and the deque after the call. A
  StopIteration that leaves the body of a coroutine is raised as RuntimeError.
\<close>

function acquire ::
  "limiter_config \<Rightarrow> rat list \<Rightarrow> instant \<Rightarrow> instant list \<Rightarrow> error + (instant \<times> instant list)" where
  "acquire cfg lags now ts =
     (case acquire_attempt cfg now ts of
        Inl e \<Rightarrow>
          Inl (if e = StopIteration then RuntimeError ''coroutine raised StopIteration'' else e)
      | Inr (Admitted ts') \<Rightarrow> Inr (now, ts')
      | Inr (Sleep wait ts') \<Rightarrow> acquire cfg (tl lags) (next_reading now wait lags) ts')"
  by pat_completeness auto
termination
  by (relation "measure (\<lambda>(cfg, lags, now, ts). pending cfg now ts)")
     (auto simp: sleep_decreases)

declare acquire.simps [simp del]






subsection \<open>One attempt computes the specified wait\<close>





subsection \<open>The quotas hold along every sequence of calls\<close>

lemma wait_time_cases:
  fixes cfg now ts
  defines "ts1 \<equiv> prune cfg now ts"
  defines "win \<equiv> filter (\<lambda>t. t \<ge> now - short_window cfg) ts1"
  assumes "1 \<le> short_limit cfg" "1 \<le> long_limit cfg"
  shows "\<exists>w. wait_time cfg now ts = Inr (w, ts1) \<and>
           (w \<le> 0 \<longrightarrow>
              (int (length win) < short_limit cfg \<or> (win \<noteq> [] \<and> hd win + short_window cfg - now \<le> 0)) \<and>
              (int (length ts1) < long_limit cfg \<or> (ts1 \<noteq> [] \<and> hd ts1 + long_window cfg - now \<le> 0)))"
  using assms(3,4)
  unfolding wait_time_def Let_def ts1_def[symmetric] win_def[symmetric]
  by (cases win; cases ts1) (auto simp: max_def)









section \<open>Billing months (fetch\_expense of the Anthropic and OpenAI plugins)\<close>

text \<open>
  \<open>datetime.date(y, m, d)\<close> raises OverflowError for an argument that is not a C int, and
  ValueError outside the years 1 to 9999, the months 1 to 12 and the days of the month.
\<close>

record date =
  year :: int
  month :: int
  day :: int

definition is_leap :: "int \<Rightarrow> bool" where
  "is_leap y \<longleftrightarrow> y mod 4 = 0 \<and> (y mod 100 \<noteq> 0 \<or> y mod 400 = 0)"

definition days_in_month :: "int \<Rightarrow> int \<Rightarrow> int" where
  "days_in_month y m =
     (if m = 2 then (if is_leap y then 29 else 28)
      else if m = 4 \<or> m = 6 \<or> m = 9 \<or> m = 11 then 30 else 31)"

definition c_int :: "int \<Rightarrow> bool" where
  "c_int n \<longleftrightarrow> - 2147483648 \<le> n \<and> n \<le> 2147483647"

definition py_date :: "int \<Rightarrow> int \<Rightarrow> int \<Rightarrow> error + date" where
  "py_date y m d =
     (if \<not> (c_int y \<and> c_int m \<and> c_int d) then Inl OverflowError
      else if \<not> (1 \<le> y \<and> y \<le> 9999) then Inl ValueError
      else if \<not> (1 \<le> m \<and> m \<le> 12) then Inl ValueError
      else if \<not> (1 \<le> d \<and> d \<le> days_in_month y m) then Inl ValueError
      else Inr \<lparr>year = y, month = m, day = d\<rparr>)"

text \<open>
  The first lines of both \<open>fetch_expense\<close> methods: the start of the month and the first day
  of the following month.
\<close>

definition aggregation_window :: "int \<Rightarrow> int \<Rightarrow> error + (date \<times> date)" where
  "aggregation_window y m =
     (case py_date y m 1 of
        Inl e \<Rightarrow> Inl e
      | Inr start_date \<Rightarrow>
          (case (if m = 12 then py_date (y + 1) 1 1 else py_date y (m + 1) 1) of
             Inl e \<Rightarrow> Inl e
           | Inr end_date \<Rightarrow> Inr (start_date, end_date)))"

text \<open>The order of dates, and the dates a window holds: its start included, its end not.\<close>

definition date_less :: "date \<Rightarrow> date \<Rightarrow> bool" where
  "date_less a b \<longleftrightarrow>
     year a < year b \<or> (year a = year b \<and> (month a < month b \<or> (month a = month b \<and> day a < day b)))"

definition in_window :: "date \<times> date \<Rightarrow> date \<Rightarrow> bool" where
  "in_window w x \<longleftrightarrow> \<not> date_less x (fst w) \<and> date_less x (snd w)"

lemma days_in_month_pos: "1 \<le> days_in_month y m"
  by (simp add: days_in_month_def)

lemma py_date_fields: "py_date y m d = Inr x \<Longrightarrow> year x = y \<and> month x = m \<and> 1 \<le> d \<and> day x = d \<and> 1 \<le> m \<and> m \<le> 12"
  by (auto simp: py_date_def split: if_splits)

text \<open>
  Claim C8, as amended. For every year from 1 to 9999 and month from 1 to 12 other than
  December 9999 the window starts on the first day of the month and ends on the first day
  of the following month (the first of January of the next year after December), and it is
  half-open: a date lies in it exactly when it is a day of that month.
\<close>

theorem aggregation_window_month:
  assumes "1 \<le> y" "y \<le> 9999" "1 \<le> m" "m \<le> 12" "y < 9999 \<or> m < 12"
    and "py_date y' m' d' = Inr x"
  shows "aggregation_window y m =
           Inr (\<lparr>year = y, month = m, day = 1\<rparr>,
                if m = 12 then \<lparr>year = y + 1, month = 1, day = 1\<rparr>
                else \<lparr>year = y, month = m + 1, day = 1\<rparr>) \<and>
         (in_window (\<lparr>year = y, month = m, day = 1\<rparr>,
                     if m = 12 then \<lparr>year = y + 1, month = 1, day = 1\<rparr>
                     else \<lparr>year = y, month = m + 1, day = 1\<rparr>) x
            \<longleftrightarrow> y' = y \<and> m' = m)"
proof
  show "aggregation_window y m =
           Inr (\<lparr>year = y, month = m, day = 1\<rparr>,
                if m = 12 then \<lparr>year = y + 1, month = 1, day = 1\<rparr>
                else \<lparr>year = y, month = m + 1, day = 1\<rparr>)"
    using assms(1-5) days_in_month_pos[of y m] days_in_month_pos[of "y + 1" 1]
      days_in_month_pos[of y "m + 1"]
    by (auto simp: aggregation_window_def py_date_def c_int_def)
  from py_date_fields[OF assms(6)]
  show "in_window (\<lparr>year = y, month = m, day = 1\<rparr>,
                     if m = 12 then \<lparr>year = y + 1, month = 1, day = 1\<rparr>
                     else \<lparr>year = y, month = m + 1, day = 1\<rparr>) x
            \<longleftrightarrow> y' = y \<and> m' = m"
    using assms(3,4) by (auto simp: in_window_def date_less_def)
qed

theorem aggregation_window_month_witness:
  "aggregation_window 2025 12 =
     Inr (\<lparr>year = 2025, month = 12, day = 1\<rparr>, \<lparr>year = 2026, month = 1, day = 1\<rparr>) \<and>
   in_window (\<lparr>year = 2025, month = 12, day = 1\<rparr>, \<lparr>year = 2026, month = 1, day = 1\<rparr>)
     \<lparr>year = 2025, month = 12, day = 31\<rparr> \<and>
   \<not> in_window (\<lparr>year = 2025, month = 12, day = 1\<rparr>, \<lparr>year = 2026, month = 1, day = 1\<rparr>)
     \<lparr>year = 2026, month = 1, day = 1\<rparr>"
proof -
  have d1: "py_date 2025 12 31 = Inr \<lparr>year = 2025, month = 12, day = 31\<rparr>"
    by (simp add: py_date_def days_in_month_def c_int_def)
  have d2: "py_date 2026 1 1 = Inr \<lparr>year = 2026, month = 1, day = 1\<rparr>"
    by (simp add: py_date_def days_in_month_def c_int_def)
  from aggregation_window_month[of 2025 12, OF _ _ _ _ _ d1]
       aggregation_window_month[of 2025 12, OF _ _ _ _ _ d2]
  show ?thesis by simp
qed

text \<open>
  Claim C8 as stated fails for December 9999, a month the command line accepts: the start
  of the month is a date, the first of January 10000 is not.
\<close>

theorem aggregation_window_month_counterexample:
  "py_date 9999 12 1 = Inr \<lparr>year = 9999, month = 12, day = 1\<rparr> \<and>
   aggregation_window 9999 12 = Inl ValueError"
  by (simp add: aggregation_window_def py_date_def days_in_month_def c_int_def)

section \<open>Decimal arithmetic (Python's decimal module, default context)\<close>

text \<open>
  A finite decimal is a signed coefficient and an exponent, \<open>Finite c e\<close> standing for
  \<open>c * 10 ^ e\<close>. The default context has 28 significant digits, rounds half to even,
  and traps InvalidOperation and Overflow. The constructor takes a string exactly;
  every arithmetic operation rounds its result to the context (\<open>dec_fix\<close>).
\<close>

datatype decimal = Finite int int | Infinity bool | NaN | SNaN

definition prec :: int where "prec = 28"
definition Emax :: int where "Emax = 999999"
definition Emin :: int where "Emin = - 999999"
definition Etiny :: int where "Etiny = Emin - prec + 1"
definition Etop :: int where "Etop = Emax - prec + 1"

function ndigits :: "int \<Rightarrow> int" where
  "ndigits n = (if n < 10 then 1 else 1 + ndigits (n div 10))"
  by pat_completeness auto
termination
  by (relation "measure nat") auto

declare ndigits.simps [simp del]

definition round_half_even :: "int \<Rightarrow> nat \<Rightarrow> int" where
  "round_half_even c d =
     (let a = \<bar>c\<bar>; p = 10 ^ d; q = a div p; r = a mod p;
          q' = (if 2 * r > p \<or> (2 * r = p \<and> odd q) then q + 1 else q)
      in sgn c * q')"

definition dec_fix :: "int \<Rightarrow> int \<Rightarrow> error + decimal" where
  "dec_fix c e =
     (if c = 0 then Inr (Finite 0 (min (max e Etiny) Emax))
      else
        let exp_min0 = ndigits \<bar>c\<bar> + e - prec in
        if exp_min0 > Etop then Inl Overflow
        else
          let exp_min = max exp_min0 Etiny in
          if e < exp_min then
            (let q = round_half_even c (nat (exp_min - e)) in
             if q \<noteq> 0 \<and> ndigits \<bar>q\<bar> > prec then
               (if exp_min + 1 > Etop then Inl Overflow else Inr (Finite (q div 10) (exp_min + 1)))
             else Inr (Finite q exp_min))
          else Inr (Finite c e))"

fun dec_add :: "decimal \<Rightarrow> decimal \<Rightarrow> error + decimal" where
  "dec_add SNaN _ = Inl InvalidOperation"
| "dec_add _ SNaN = Inl InvalidOperation"
| "dec_add NaN _ = Inr NaN"
| "dec_add _ NaN = Inr NaN"
| "dec_add (Infinity s1) (Infinity s2) = (if s1 = s2 then Inr (Infinity s1) else Inl InvalidOperation)"
| "dec_add (Infinity s1) (Finite _ _) = Inr (Infinity s1)"
| "dec_add (Finite _ _) (Infinity s2) = Inr (Infinity s2)"
| "dec_add (Finite c1 e1) (Finite c2 e2) =
     (let e = min e1 e2 in dec_fix (c1 * 10 ^ nat (e1 - e) + c2 * 10 ^ nat (e2 - e)) e)"

fun dec_mul :: "decimal \<Rightarrow> decimal \<Rightarrow> error + decimal" where
  "dec_mul SNaN _ = Inl InvalidOperation"
| "dec_mul _ SNaN = Inl InvalidOperation"
| "dec_mul NaN _ = Inr NaN"
| "dec_mul _ NaN = Inr NaN"
| "dec_mul (Infinity s1) (Infinity s2) = Inr (Infinity (s1 \<noteq> s2))"
| "dec_mul (Infinity s1) (Finite c e) =
     (if c = 0 then Inl InvalidOperation else Inr (Infinity (s1 \<noteq> (c < 0))))"
| "dec_mul (Finite c e) (Infinity s2) =
     (if c = 0 then Inl InvalidOperation else Inr (Infinity (s2 \<noteq> (c < 0))))"
| "dec_mul (Finite c1 e1) (Finite c2 e2) = dec_fix (c1 * c2) (e1 + e2)"

fun dec_ceil :: "decimal \<Rightarrow> error + int" where
  "dec_ceil (Finite c e) = Inr (if e \<ge> 0 then c * 10 ^ nat e else - ((- c) div 10 ^ nat (- e)))"
| "dec_ceil (Infinity _) = Inl OverflowError"
| "dec_ceil NaN = Inl ValueError"
| "dec_ceil SNaN = Inl ValueError"

text \<open>
  \<open>Decimal(value)\<close> on a string: surrounding whitespace is stripped and underscores are
  removed, then the string is a sign, digits with an optional fraction and an optional
  exponent, or an infinity or a NaN. Strings are ASCII here. The conversion is exact; it is
  refused when the exponent leaves the range of a 64-bit build.
\<close>

definition is_space :: "char \<Rightarrow> bool" where
  "is_space c \<longleftrightarrow> (of_char c :: nat) \<in> {9, 10, 11, 12, 13, 28, 29, 30, 31, 32}"

definition is_digit :: "char \<Rightarrow> bool" where
  "is_digit c \<longleftrightarrow> 48 \<le> (of_char c :: nat) \<and> (of_char c :: nat) \<le> 57"

definition to_lower :: "char \<Rightarrow> char" where
  "to_lower c = (let n = (of_char c :: nat) in if 65 \<le> n \<and> n \<le> 90 then char_of (n + 32) else c)"

definition int_of_digits :: "string \<Rightarrow> int" where
  "int_of_digits ds = foldl (\<lambda>a c. 10 * a + (of_char c - 48)) 0 ds"

definition strip :: "string \<Rightarrow> string" where
  "strip s = rev (dropWhile is_space (rev (dropWhile is_space s)))"

definition split_sign :: "string \<Rightarrow> bool \<times> string" where
  "split_sign s =
     (case s of
        c # r \<Rightarrow> if c = CHR ''-'' then (True, r) else if c = CHR ''+'' then (False, r) else (False, s)
      | [] \<Rightarrow> (False, s))"

definition parse_exponent :: "string \<Rightarrow> int option" where
  "parse_exponent s =
     (case s of
        [] \<Rightarrow> Some 0
      | c # r \<Rightarrow>
          if to_lower c = CHR ''e'' then
            (let (neg, ds) = split_sign r in
             if ds \<noteq> [] \<and> list_all is_digit ds
             then Some (if neg then - int_of_digits ds else int_of_digits ds)
             else None)
          else None)"

definition MAX_EMAX :: int where "MAX_EMAX = 999999999999999999"
definition MIN_ETINY :: int where "MIN_ETINY = - 1999999999999999997"

definition Decimal :: "string \<Rightarrow> error + decimal" where
  "Decimal value =
     (let s = filter (\<lambda>c. c \<noteq> CHR ''_'') (strip value);
          (neg, body) = split_sign s;
          low = map to_lower body
      in if low = ''inf'' \<or> low = ''infinity'' then Inr (Infinity neg)
         else if take 3 low = ''nan'' \<and> list_all is_digit (drop 3 low) then Inr NaN
         else if take 4 low = ''snan'' \<and> list_all is_digit (drop 4 low) then Inr SNaN
         else
           let intpart = takeWhile is_digit body;
               rest = dropWhile is_digit body;
               (fracpart, rest') =
                  (case rest of
                     c # r \<Rightarrow> if c = CHR ''.'' then (takeWhile is_digit r, dropWhile is_digit r)
                              else ([], rest)
                   | [] \<Rightarrow> ([], rest))
           in if intpart = [] \<and> fracpart = [] then Inl InvalidOperation
              else (case parse_exponent rest' of
                      None \<Rightarrow> Inl InvalidOperation
                    | Some ex \<Rightarrow>
                        let coeff = int_of_digits (intpart @ fracpart);
                            e = ex - int (length fracpart)
                        in if e < MIN_ETINY \<or> e + ndigits coeff - 1 > MAX_EMAX
                           then Inl InvalidOperation
                           else Inr (Finite (if neg then - coeff else coeff) e)))"

section \<open>Paginated cost aggregation (plugins/anthropic.py, plugins/openai.py)\<close>

text \<open>
  A response of the cost report after the \<open>.get\<close> defaults: the buckets of \<open>data\<close>, each the
  list of the \<open>amount\<close> fields of its results (\<open>None\<close> when the key is absent), \<open>has_more\<close> and
  \<open>next_page\<close>. For OpenAI the amount is the text that \<open>str(value)\<close> gives. The vendor's
  endpoint is a function of the attempt (the calls are retried) and of the page cursor sent.
\<close>

record cost_page =
  data :: "string option list list"
  has_more :: bool
  next_page :: "string option"

type_synonym cost_api = "nat \<Rightarrow> string option \<Rightarrow> error + cost_page"

text \<open>
  The unit conversion of each vendor: Anthropic reports minor units as decimal strings,
  \<open>Decimal(amount_str)\<close>; OpenAI reports major units, \<open>Decimal(str(value)) * 100\<close>.
\<close>

definition amount_text :: "string option \<Rightarrow> string" where
  "amount_text a = (case a of None \<Rightarrow> ''0'' | Some s \<Rightarrow> s)"

definition anthropic_amount :: "string option \<Rightarrow> error + decimal" where
  "anthropic_amount a = Decimal (amount_text a)"

definition openai_amount :: "string option \<Rightarrow> error + decimal" where
  "openai_amount a =
     (case Decimal (amount_text a) of
        Inl e \<Rightarrow> Inl e
      | Inr d \<Rightarrow> dec_mul d (Finite 100 0))"

text \<open>The two nested \<open>for\<close> loops that add every result of every bucket to \<open>total\<close>.\<close>

fun sum_results ::
  "(string option \<Rightarrow> error + decimal) \<Rightarrow> decimal \<Rightarrow> string option list \<Rightarrow> error + decimal" where
  "sum_results conv tot [] = Inr tot"
| "sum_results conv tot (a # results) =
     (case conv a of
        Inl e \<Rightarrow> Inl e
      | Inr d \<Rightarrow>
          (case dec_add tot d of
             Inl e \<Rightarrow> Inl e
           | Inr tot' \<Rightarrow> sum_results conv tot' results))"

fun sum_buckets ::
  "(string option \<Rightarrow> error + decimal) \<Rightarrow> decimal \<Rightarrow> string option list list \<Rightarrow> error + decimal" where
  "sum_buckets conv tot [] = Inr tot"
| "sum_buckets conv tot (bucket # buckets) =
     (case sum_results conv tot bucket of
        Inl e \<Rightarrow> Inl e
      | Inr tot' \<Rightarrow> sum_buckets conv tot' buckets)"

text \<open>
  The \<open>while True\<close> loop of \<open>_fetch_total_cost\<close>. The cursor is sent only when it is truthy
  (\<open>if page:\<close>). The loop runs as long as the vendor answers \<open>has_more\<close>, so it takes fuel:
  \<open>None\<close> is a loop that has not ended after that many requests.
\<close>

definition request_cursor :: "string option \<Rightarrow> string option" where
  "request_cursor page = (case page of None \<Rightarrow> None | Some s \<Rightarrow> if s = [] then None else Some s)"

fun fetch_pages ::
  "nat \<Rightarrow> (string option \<Rightarrow> error + cost_page) \<Rightarrow> (string option \<Rightarrow> error + decimal)
     \<Rightarrow> string option \<Rightarrow> decimal \<Rightarrow> (error + decimal) option" where
  "fetch_pages 0 http conv page tot = None"
| "fetch_pages (Suc fuel) http conv page tot =
     (case http (request_cursor page) of
        Inl e \<Rightarrow> Some (Inl e)
      | Inr response \<Rightarrow>
          (case sum_buckets conv tot (data response) of
             Inl e \<Rightarrow> Some (Inl e)
           | Inr tot' \<Rightarrow>
               if \<not> has_more response then Some (Inr tot')
               else fetch_pages fuel http conv (next_page response) tot'))"

definition fetch_total_once ::
  "nat \<Rightarrow> (string option \<Rightarrow> error + cost_page) \<Rightarrow> (string option \<Rightarrow> error + decimal)
     \<Rightarrow> (error + int) option" where
  "fetch_total_once fuel http conv =
     (case fetch_pages fuel http conv None (Finite 0 0) of
        None \<Rightarrow> None
      | Some (Inl e) \<Rightarrow> Some (Inl e)
      | Some (Inr tot) \<Rightarrow> Some (dec_ceil tot))"

text \<open>
  The decorator \<open>@retry(stop=stop_after_attempt(3), ...)\<close>: the whole body runs again after
  any exception, and after the third failure RetryError is raised. The waits between the
  attempts are not modelled.
\<close>

fun retrying :: "nat \<Rightarrow> nat \<Rightarrow> (nat \<Rightarrow> (error + int) option) \<Rightarrow> (error + int) option" where
  "retrying 0 attempt body = Some (Inl RetryError)"
| "retrying (Suc left) attempt body =
     (case body attempt of
        None \<Rightarrow> None
      | Some (Inr tot) \<Rightarrow> Some (Inr tot)
      | Some (Inl e) \<Rightarrow> retrying left (Suc attempt) body)"

definition fetch_total_cost ::
  "nat \<Rightarrow> cost_api \<Rightarrow> (string option \<Rightarrow> error + decimal) \<Rightarrow> (error + int) option" where
  "fetch_total_cost fuel api conv = retrying 3 0 (\<lambda>attempt. fetch_total_once fuel (api attempt) conv)"






text \<open>
  The specification's side: the pages a pagination walk visits, the exact value of a
  decimal, and the condition under which no sum is rounded: every amount is finite with an
  exponent between \<open>m\<close> and \<open>Etop\<close>, and the magnitudes, written at the exponent \<open>m\<close>, add up
  to fewer than 29 digits.
\<close>

fun page_chain :: "(string option \<Rightarrow> error + cost_page) \<Rightarrow> string option \<Rightarrow> cost_page list \<Rightarrow> bool" where
  "page_chain http page [] = False"
| "page_chain http page (p # ps) =
     (http (request_cursor page) = Inr p \<and>
      (if has_more p then page_chain http (next_page p) ps else ps = []))"






subsection \<open>The total is the ceiling of the exact sum\<close>









lemma sum_results_append:
  "sum_results conv tot (xs @ ys) =
     (case sum_results conv tot xs of Inl e \<Rightarrow> Inl e | Inr t \<Rightarrow> sum_results conv t ys)"
  by (induction xs arbitrary: tot) (auto split: sum.splits)

lemma sum_buckets_concat: "sum_buckets conv tot bs = sum_results conv tot (concat bs)"
  by (induction bs arbitrary: tot) (auto simp: sum_results_append split: sum.splits)

lemma fetch_pages_chain:
  "page_chain http page ps \<Longrightarrow> length ps \<le> fuel \<Longrightarrow>
     fetch_pages fuel http conv page tot = Some (sum_results conv tot (concat (concat (map data ps))))"
proof (induction ps arbitrary: fuel page tot)
  case Nil
  then show ?case by simp
next
  case (Cons p ps)
  from Cons.prems(2) obtain fuel' where fuel: "fuel = Suc fuel'" "length ps \<le> fuel'"
    by (cases fuel) auto
  from Cons.prems(1) have req: "http (request_cursor page) = Inr p" by simp
  show ?case
  proof (cases "sum_results conv tot (concat (data p))")
    case (Inl e)
    then show ?thesis using req fuel by (simp add: sum_buckets_concat sum_results_append)
  next
    case (Inr t)
    show ?thesis
    proof (cases "has_more p")
      case True
      with Cons.prems(1) have "page_chain http (next_page p) ps" by simp
      from Cons.IH[OF this fuel(2)] True req Inr fuel show ?thesis
        by (simp add: sum_buckets_concat sum_results_append)
    next
      case False
      with Cons.prems(1) have "ps = []" by simp
      with False req Inr fuel show ?thesis
        by (simp add: sum_buckets_concat)
    qed
  qed
qed








section \<open>Expense records and fetch\_expense (models.py, plugins)\<close>

text \<open>\<open>f"{year}-{month:02d}"\<close>.\<close>

function digits10 :: "int \<Rightarrow> string" where
  "digits10 n = (if n < 10 then [char_of (48 + n)] else digits10 (n div 10) @ [char_of (48 + n mod 10)])"
  by pat_completeness auto
termination
  by (relation "measure nat") auto

declare digits10.simps [simp del]

definition py_str_int :: "int \<Rightarrow> string" where
  "py_str_int n = (if n < 0 then CHR ''-'' # digits10 (- n) else digits10 n)"

definition fmt_02d :: "int \<Rightarrow> string" where
  "fmt_02d n = (let s = py_str_int n in replicate (2 - length s) (CHR ''0'') @ s)"

definition year_month :: "int \<Rightarrow> int \<Rightarrow> string" where
  "year_month y m = py_str_int y @ ''-'' @ fmt_02d m"

text \<open>\<open>ExpenseData\<close>: a pydantic model whose fields carry no constraint beyond their types.\<close>

record ExpenseData =
  merchant :: string
  amount :: int
  currency :: string
  date :: date
  category :: string
  comment :: "string option"
  receipt_path :: string

text \<open>
  \<open>AnthropicPlugin.fetch_expense\<close> and \<open>OpenAIPlugin.fetch_expense\<close> are the same method up to
  the merchant name, the directory of the placeholder receipt and the unit conversion.
  The vendor's endpoint receives the window; \<open>download_invoice\<close> is the browser session,
  an external collaborator that returns a path or raises. In a dry run the placeholder
  file is written at the path returned.
\<close>

type_synonym vendor_api = "date \<Rightarrow> date \<Rightarrow> cost_api"

definition plugin_fetch_expense ::
  "string \<Rightarrow> string \<Rightarrow> (string option \<Rightarrow> error + decimal) \<Rightarrow> nat \<Rightarrow> vendor_api \<Rightarrow> string
     \<Rightarrow> (int \<Rightarrow> int \<Rightarrow> error + string) \<Rightarrow> int \<Rightarrow> int \<Rightarrow> bool \<Rightarrow> (error + ExpenseData option) option" where
  "plugin_fetch_expense merchant_name slug conv fuel api config_category download_invoice y m dry_run =
     (case aggregation_window y m of
        Inl e \<Rightarrow> Some (Inl e)
      | Inr (start_date, end_date) \<Rightarrow>
          (case fetch_total_cost fuel (api start_date end_date) conv of
             None \<Rightarrow> None
           | Some (Inl e) \<Rightarrow> Some (Inl e)
           | Some (Inr total_cents) \<Rightarrow>
               if total_cents = 0 then Some (Inr None)
               else
                 (case (if \<not> dry_run then download_invoice y m
                        else Inr (''downloads/'' @ slug @ ''/'' @ slug @ ''_'' @ year_month y m @ ''.pdf'')) of
                    Inl e \<Rightarrow> Some (Inl e)
                  | Inr path \<Rightarrow>
                      Some (Inr (Some
                        \<lparr>merchant = merchant_name, amount = total_cents, currency = ''USD'',
                         date = start_date, category = config_category,
                         comment = Some (merchant_name @ '' API usage for '' @ year_month y m),
                         receipt_path = path\<rparr>)))))"

definition anthropic_fetch_expense where
  "anthropic_fetch_expense = plugin_fetch_expense ''Anthropic'' ''anthropic'' anthropic_amount"

definition openai_fetch_expense where
  "openai_fetch_expense = plugin_fetch_expense ''OpenAI'' ''openai'' openai_amount"

definition test_zero :: vendor_api where
  "test_zero start_date end_date attempt cursor = Inr \<lparr>data = [], has_more = False, next_page = None\<rparr>"

definition test_empty_results :: vendor_api where
  "test_empty_results start_date end_date attempt cursor =
     (if cursor = None then Inr \<lparr>data = [[], []], has_more = True, next_page = Some ''p2''\<rparr>
      else Inr \<lparr>data = [[]], has_more = False, next_page = None\<rparr>)"



definition no_download :: "int \<Rightarrow> int \<Rightarrow> error + string" where
  "no_download y m = Inl (OtherError ''browser'')"



subsection \<open>A total of zero is no expense\<close>

lemma plugin_fetch_expense_amount:
  assumes "plugin_fetch_expense mn slug conv fuel api cat dl y m dry = Some (Inr (Some r))"
  shows "\<exists>s e. aggregation_window y m = Inr (s, e) \<and>
           fetch_total_cost fuel (api s e) conv = Some (Inr (amount r)) \<and> amount r \<noteq> 0"
  using assms
  by (auto simp: plugin_fetch_expense_def split: sum.splits option.splits if_splits prod.splits)

lemma no_results_total_zero:
  assumes "page_chain (api 0) None pages" "length pages \<le> fuel" "concat (concat (map data pages)) = []"
  shows "fetch_total_cost fuel api conv = Some (Inr 0)"
proof -
  have "fetch_pages fuel (api 0) conv None (Finite 0 0) = Some (Inr (Finite 0 0))"
    using fetch_pages_chain[OF assms(1,2), of conv "Finite 0 0"] assms(3) by simp
  then have "fetch_total_once fuel (api 0) conv = Some (Inr 0)"
    by (simp add: fetch_total_once_def)
  then show ?thesis by (simp add: fetch_total_cost_def numeral_3_eq_3)
qed

text \<open>
  Claim C9. For a month whose aggregated total is 0, \<open>fetch_expense\<close> of either plugin
  returns \<open>None\<close>: not an error and not a record. That is so in particular when no page of
  the report holds a result. No record that \<open>fetch_expense\<close> returns has the amount 0.
\<close>

theorem zero_total_no_expense:
  assumes "aggregation_window y m = Inr (s, e)"
  shows "(fetch_total_cost fuel (api s e) anthropic_amount = Some (Inr 0)
            \<longrightarrow> anthropic_fetch_expense fuel api cat dl y m dry = Some (Inr None)) \<and>
         (fetch_total_cost fuel (api s e) openai_amount = Some (Inr 0)
            \<longrightarrow> openai_fetch_expense fuel api cat dl y m dry = Some (Inr None)) \<and>
         (page_chain (api s e 0) None pages \<and> length pages \<le> fuel \<and> concat (concat (map data pages)) = []
            \<longrightarrow> anthropic_fetch_expense fuel api cat dl y m dry = Some (Inr None) \<and>
                openai_fetch_expense fuel api cat dl y m dry = Some (Inr None)) \<and>
         (anthropic_fetch_expense fuel api cat dl y m dry = Some (Inr (Some r)) \<longrightarrow> amount r \<noteq> 0) \<and>
         (openai_fetch_expense fuel api cat dl y m dry = Some (Inr (Some r)) \<longrightarrow> amount r \<noteq> 0)"
proof -
  have zero: "plugin_fetch_expense mn slug conv fuel api cat dl y m dry = Some (Inr None)"
    if "fetch_total_cost fuel (api s e) conv = Some (Inr 0)" for mn slug conv
    using that assms by (simp add: plugin_fetch_expense_def)
  have nz: "amount r \<noteq> 0"
    if "plugin_fetch_expense mn slug conv fuel api cat dl y m dry = Some (Inr (Some r))" for mn slug conv
    using plugin_fetch_expense_amount[OF that] by blast
  have empty: "plugin_fetch_expense mn slug conv fuel api cat dl y m dry = Some (Inr None)"
    if "page_chain (api s e 0) None pages \<and> length pages \<le> fuel \<and> concat (concat (map data pages)) = []"
    for mn slug conv
    using that by (intro zero no_results_total_zero[where pages = pages]) auto
  show ?thesis
    unfolding anthropic_fetch_expense_def openai_fetch_expense_def
    using zero nz empty by blast
qed

theorem zero_total_no_expense_witness:
  "anthropic_fetch_expense 1 test_zero ''AI'' no_download 2026 1 False = Some (Inr None) \<and>
   openai_fetch_expense 2 test_empty_results ''AI'' no_download 2026 1 False = Some (Inr None)"
proof -
  have w: "aggregation_window 2026 1 = Inr (\<lparr>year = 2026, month = 1, day = 1\<rparr>, \<lparr>year = 2026, month = 2, day = 1\<rparr>)"
    by code_simp
  have t1: "fetch_total_cost 1 (test_zero \<lparr>year = 2026, month = 1, day = 1\<rparr> \<lparr>year = 2026, month = 2, day = 1\<rparr>)
      anthropic_amount = Some (Inr 0)"
    by code_simp
  have c2: "page_chain (test_empty_results \<lparr>year = 2026, month = 1, day = 1\<rparr> \<lparr>year = 2026, month = 2, day = 1\<rparr> 0)
      None [\<lparr>data = [[], []], has_more = True, next_page = Some ''p2''\<rparr>,
            \<lparr>data = [[]], has_more = False, next_page = None\<rparr>]"
    by (simp add: test_empty_results_def request_cursor_def)
  from zero_total_no_expense[where fuel = 1 and api = test_zero, OF w] t1
  have "anthropic_fetch_expense 1 test_zero ''AI'' no_download 2026 1 False = Some (Inr None)"
    by blast
  moreover
  from zero_total_no_expense[where fuel = 2 and api = test_empty_results and pages =
      "[\<lparr>data = [[], []], has_more = True, next_page = Some ''p2''\<rparr>,
        \<lparr>data = [[]], has_more = False, next_page = None\<rparr>]", OF w] c2
  have "openai_fetch_expense 2 test_empty_results ''AI'' no_download 2026 1 False = Some (Inr None)"
    by simp
  ultimately show ?thesis by simp
qed

subsection \<open>The sign of the amount\<close>
















section \<open>Expense submission client (expensify/client.py)\<close>

text \<open>
  Values parsed from JSON. \<open>JNull\<close> is Python's \<open>None\<close>; an object keeps its members in
  document order and a later member of the same name overrides an earlier one, as
  \<open>json.loads\<close> does. Numbers are their exact values.
\<close>

datatype json =
    JNull
  | JBool bool
  | JNum rat
  | JStr string
  | JArr "json list"
  | JObj "(string \<times> json) list"

definition dict_get :: "(string \<times> json) list \<Rightarrow> string \<Rightarrow> json \<Rightarrow> json" where
  "dict_get members k dflt = (case map_of (rev members) k of None \<Rightarrow> dflt | Some v \<Rightarrow> v)"

text \<open>Truth value of a parsed value (\<open>if transaction_list:\<close>, \<open>if transaction_id and ...\<close>).\<close>

fun truthy :: "json \<Rightarrow> bool" where
  "truthy JNull = False"
| "truthy (JBool b) = b"
| "truthy (JNum n) = (n \<noteq> 0)"
| "truthy (JStr s) = (s \<noteq> [])"
| "truthy (JArr xs) = (xs \<noteq> [])"
| "truthy (JObj members) = (members \<noteq> [])"

text \<open>
  \<open>result.get("responseCode", 0) >= 400\<close>: a number is compared, a boolean is 0 or 1, any
  other value raises TypeError.
\<close>

fun ge_400 :: "json \<Rightarrow> error + bool" where
  "ge_400 (JNum n) = Inr (n \<ge> 400)"
| "ge_400 (JBool b) = Inr False"
| "ge_400 _ = Inl TypeError"

text \<open>
  The text an f-string gives for a value: a string is itself; for any other value it is
  its \<open>repr\<close>, which is left as a parameter.
\<close>

fun py_str :: "(json \<Rightarrow> string) \<Rightarrow> json \<Rightarrow> string" where
  "py_str py_repr (JStr s) = s"
| "py_str py_repr v = py_repr v"

text \<open>
  An HTTP response: the status, the parsed body (\<open>None\<close> when \<open>response.json()\<close> raises
  JSONDecodeError) and the raw text. \<open>raise_for_status\<close> lets the 2xx codes pass.
\<close>

record http_response =
  status_code :: int
  json_body :: "json option"
  body_text :: string

definition is_success :: "http_response \<Rightarrow> bool" where
  "is_success response \<longleftrightarrow> 200 \<le> status_code response \<and> status_code response \<le> 299"

text \<open>
  The two requests the client posts: a \<open>create\<close> job with the fields of the one transaction,
  and a \<open>receiptUpload\<close> with the transaction identifier and the name of the attached file.
  The credentials and the employee address, the same in every request, are left out. The
  backend is a function of the request; a transport failure is an \<open>Inl\<close>.
\<close>

datatype api_call =
    CreateCall string int string string string string
  | ReceiptUploadCall json string

text \<open>
  The client: the state of its rate limiter (the clock and the deque of timestamps) and,
  as a record of what it has done, the requests it has posted.
\<close>

record client =
  limiter_clock :: instant
  limiter_timestamps :: "instant list"
  requests_sent :: "api_call list"

text \<open>
  \<open>expense.date.isoformat()\<close>, and \<open>receipt_path.name\<close> on the text of a path (as \<open>str\<close> of a
  \<open>Path\<close> gives it, without a trailing separator).
\<close>

definition fmt_04d :: "int \<Rightarrow> string" where
  "fmt_04d n = (let s = py_str_int n in replicate (4 - length s) (CHR ''0'') @ s)"

definition isoformat :: "date \<Rightarrow> string" where
  "isoformat d = fmt_04d (year d) @ ''-'' @ fmt_02d (month d) @ ''-'' @ fmt_02d (day d)"

definition path_name :: "string \<Rightarrow> string" where
  "path_name p = rev (takeWhile (\<lambda>c. c \<noteq> CHR ''/'') (rev p))"

definition plain_text_result :: "http_response \<Rightarrow> json" where
  "plain_text_result response =
     JObj [(''responseCode'', JNum 200), (''responseMessage'', JStr (body_text response))]"

text \<open>
  What \<open>_request\<close> and \<open>upload_receipt\<close> both begin with: wait for the rate limiter (the
  default limits), post, and \<open>raise_for_status\<close>.
\<close>

definition rate_limited_post ::
  "client \<Rightarrow> (api_call \<Rightarrow> error + http_response) \<Rightarrow> api_call \<Rightarrow> client \<times> (error + http_response)" where
  "rate_limited_post st backend call =
     (case acquire default_config [] (limiter_clock st) (limiter_timestamps st) of
        Inl e \<Rightarrow> (st, Inl e)
      | Inr (now, ts) \<Rightarrow>
          (let st' = st\<lparr>limiter_clock := now, limiter_timestamps := ts,
                         requests_sent := requests_sent st @ [call]\<rparr>
           in case backend call of
                Inl e \<Rightarrow> (st', Inl e)
              | Inr response \<Rightarrow>
                  if is_success response then (st', Inr response)
                  else (st', Inl (HTTPStatusError (status_code response)))))"

text \<open>The check of the payload at the end of \<open>_request\<close>.\<close>

definition check_result :: "(json \<Rightarrow> string) \<Rightarrow> json \<Rightarrow> error + json" where
  "check_result py_repr result =
     (case result of
        JObj members \<Rightarrow>
          (case ge_400 (dict_get members ''responseCode'' (JNum 0)) of
             Inl e \<Rightarrow> Inl e
           | Inr True \<Rightarrow>
               Inl (RuntimeError (''Expensify API error: '' @
                      py_str py_repr (dict_get members ''responseMessage'' result)))
           | Inr False \<Rightarrow> Inr result)
      | _ \<Rightarrow> Inr result)"

text \<open>\<open>ExpensifyClient._request\<close>, \<open>create_expense\<close> and \<open>upload_receipt\<close>.\<close>

definition request ::
  "client \<Rightarrow> (api_call \<Rightarrow> error + http_response) \<Rightarrow> (json \<Rightarrow> string) \<Rightarrow> api_call
     \<Rightarrow> client \<times> (error + json)" where
  "request st backend py_repr call =
     (case rate_limited_post st backend call of
        (st', Inl e) \<Rightarrow> (st', Inl e)
      | (st', Inr response) \<Rightarrow>
          (case json_body response of
             None \<Rightarrow> (st', Inr (plain_text_result response))
           | Some result \<Rightarrow> (st', check_result py_repr result)))"

definition create_call :: "ExpenseData \<Rightarrow> api_call" where
  "create_call expense =
     CreateCall (merchant expense) (amount expense) (currency expense) (isoformat (date expense))
       (category expense) (case comment expense of None \<Rightarrow> '''' | Some c \<Rightarrow> c)"

definition upload_call :: "ExpenseData \<Rightarrow> json \<Rightarrow> api_call" where
  "upload_call expense transaction_id =
     ReceiptUploadCall transaction_id (path_name (receipt_path expense))"

definition create_expense ::
  "client \<Rightarrow> (api_call \<Rightarrow> error + http_response) \<Rightarrow> (json \<Rightarrow> string) \<Rightarrow> ExpenseData
     \<Rightarrow> client \<times> (error + json)" where
  "create_expense st backend py_repr expense =
     request st backend py_repr (create_call expense)"

definition upload_receipt ::
  "client \<Rightarrow> (string \<Rightarrow> bool) \<Rightarrow> (api_call \<Rightarrow> error + http_response) \<Rightarrow> ExpenseData \<Rightarrow> json
     \<Rightarrow> client \<times> (error + json)" where
  "upload_receipt st exists backend expense transaction_id =
     (if \<not> exists (receipt_path expense) then (st, Inl FileNotFoundError)
      else
        (case rate_limited_post st backend (upload_call expense transaction_id) of
           (st', Inl e) \<Rightarrow> (st', Inl e)
         | (st', Inr response) \<Rightarrow>
             (case json_body response of
                None \<Rightarrow> (st', Inr (plain_text_result response))
              | Some result \<Rightarrow> (st', Inr result))))"

text \<open>
  The extraction of the transaction identifier in \<open>submit_expense\<close>. Subscripting a truthy
  value that is not a list, and \<open>.get\<close> on a first entry that is not an object, raise.
\<close>

definition extract_transaction_id :: "json \<Rightarrow> error + json" where
  "extract_transaction_id create_result =
     (case create_result of
        JObj members \<Rightarrow>
          (let transaction_list = dict_get members ''transactionList'' (JArr []) in
           if truthy transaction_list then
             (case transaction_list of
                JArr entries \<Rightarrow>
                  (case entries of
                     [] \<Rightarrow> Inl IndexError
                   | first # _ \<Rightarrow>
                       (case first of
                          JObj entry \<Rightarrow> Inr (dict_get entry ''transactionID'' JNull)
                        | _ \<Rightarrow> Inl AttributeError))
              | JStr _ \<Rightarrow> Inl AttributeError
              | JObj _ \<Rightarrow> Inl KeyError
              | _ \<Rightarrow> Inl TypeError)
           else Inr JNull)
      | _ \<Rightarrow> Inr JNull)"

text \<open>
  \<open>ExpensifyClient.submit_expense\<close>. \<open>exists\<close> tells which paths are files. The result is the
  dictionary with the keys \<open>create\<close>, \<open>receipt\<close> and \<open>transaction_id\<close>.
\<close>

definition submit_expense ::
  "client \<Rightarrow> (string \<Rightarrow> bool) \<Rightarrow> (api_call \<Rightarrow> error + http_response) \<Rightarrow> (json \<Rightarrow> string)
     \<Rightarrow> ExpenseData \<Rightarrow> client \<times> (error + json)" where
  "submit_expense st exists backend py_repr expense =
     (case create_expense st backend py_repr expense of
        (st1, Inl e) \<Rightarrow> (st1, Inl e)
      | (st1, Inr create_result) \<Rightarrow>
          (case extract_transaction_id create_result of
             Inl e \<Rightarrow> (st1, Inl e)
           | Inr transaction_id \<Rightarrow>
               if truthy transaction_id \<and> exists (receipt_path expense) then
                 (case upload_receipt st1 exists backend expense transaction_id of
                    (st2, Inl e) \<Rightarrow> (st2, Inl e)
                  | (st2, Inr receipt_result) \<Rightarrow>
                      (st2, Inr (JObj [(''create'', create_result), (''receipt'', receipt_result),
                                       (''transaction_id'', transaction_id)])))
               else
                 (st1, Inr (JObj [(''create'', create_result), (''receipt'', JNull),
                                  (''transaction_id'', transaction_id)]))))"

text \<open>The scenarios of the repository's tests of the client.\<close>

definition new_client :: client where
  "new_client = \<lparr>limiter_clock = 0, limiter_timestamps = [], requests_sent = []\<rparr>"

definition test_expense :: ExpenseData where
  "test_expense =
     \<lparr>merchant = ''Anthropic'', amount = 12345, currency = ''USD'',
      date = \<lparr>year = 2026, month = 1, day = 1\<rparr>, category = ''AI & ML Services'',
      comment = Some ''Claude API usage for 2026-01'', receipt_path = ''/tmp/receipt.pdf''\<rparr>"

definition ok_json :: "json \<Rightarrow> error + http_response" where
  "ok_json j = Inr \<lparr>status_code = 200, json_body = Some j, body_text = ''''\<rparr>"

fun backend_full_flow :: "api_call \<Rightarrow> error + http_response" where
  "backend_full_flow (CreateCall _ _ _ _ _ _) =
     ok_json (JObj [(''responseCode'', JNum 200),
                    (''transactionList'', JArr [JObj [(''transactionID'', JStr ''txn_456'')]])])"
| "backend_full_flow (ReceiptUploadCall _ _) = ok_json (JObj [(''responseCode'', JNum 200)])"

definition backend_invalid_credentials :: "api_call \<Rightarrow> error + http_response" where
  "backend_invalid_credentials call =
     ok_json (JObj [(''responseCode'', JNum 410), (''responseMessage'', JStr ''Invalid credentials'')])"


definition all_files :: "string \<Rightarrow> bool" where
  "all_files p = True"

definition no_repr :: "json \<Rightarrow> string" where
  "no_repr v = ''<repr>''"



subsection \<open>The limiter of the client never raises\<close>

lemma acquire_attempt_no_error:
  assumes "1 \<le> short_limit cfg" "1 \<le> long_limit cfg"
  shows "acquire_attempt cfg now ts \<noteq> Inl e"
proof -
  from wait_time_cases[OF assms, of now ts] obtain w where
    "wait_time cfg now ts = Inr (w, prune cfg now ts)" by blast
  then show ?thesis by (simp add: acquire_attempt_def)
qed

lemma acquire_returns:
  assumes "1 \<le> short_limit cfg" "1 \<le> long_limit cfg"
  shows "\<exists>now' ts'. acquire cfg lags now ts = Inr (now', ts')"
  using assms
proof (induction cfg lags now ts rule: acquire.induct)
  case (1 cfg lags now ts)
  show ?case
  proof (cases "acquire_attempt cfg now ts")
    case (Inl e)
    with acquire_attempt_no_error[OF "1.prems"] show ?thesis by blast
  next
    case (Inr a)
    show ?thesis
    proof (cases a)
      case (Admitted ts')
      with Inr show ?thesis by (simp add: acquire.simps)
    next
      case (Sleep w ts')
      from "1.IH"[OF Inr Sleep "1.prems"] Inr Sleep show ?thesis
        by (simp add: acquire.simps)
    qed
  qed
qed

lemma rate_limited_post_sent:
  "\<exists>now ts. rate_limited_post st backend call =
     (st\<lparr>limiter_clock := now, limiter_timestamps := ts, requests_sent := requests_sent st @ [call]\<rparr>,
      case backend call of
        Inl e \<Rightarrow> Inl e
      | Inr response \<Rightarrow>
          if is_success response then Inr response else Inl (HTTPStatusError (status_code response)))"
proof -
  have "1 \<le> short_limit default_config" "1 \<le> long_limit default_config"
    by (simp_all add: default_config_def)
  from acquire_returns[OF this, of "[]" "limiter_clock st" "limiter_timestamps st"]
  obtain now ts where "acquire default_config [] (limiter_clock st) (limiter_timestamps st) = Inr (now, ts)"
    by blast
  then show ?thesis
    by (auto simp: rate_limited_post_def Let_def split: sum.splits)
qed

lemma request_sent:
  "\<exists>now ts. request st backend py_repr call =
     (st\<lparr>limiter_clock := now, limiter_timestamps := ts, requests_sent := requests_sent st @ [call]\<rparr>,
      case backend call of
        Inl e \<Rightarrow> Inl e
      | Inr response \<Rightarrow>
          if is_success response then
            (case json_body response of
               None \<Rightarrow> Inr (plain_text_result response)
             | Some result \<Rightarrow> check_result py_repr result)
          else Inl (HTTPStatusError (status_code response)))"
proof -
  from rate_limited_post_sent[of st backend call] obtain now ts where
    "rate_limited_post st backend call =
     (st\<lparr>limiter_clock := now, limiter_timestamps := ts, requests_sent := requests_sent st @ [call]\<rparr>,
      case backend call of
        Inl e \<Rightarrow> Inl e
      | Inr response \<Rightarrow>
          if is_success response then Inr response else Inl (HTTPStatusError (status_code response)))"
    by blast
  then show ?thesis
    by (auto simp: request_def split: sum.splits option.splits)
qed




subsection \<open>Application errors in the payload\<close>

text \<open>
  On the create path a payload with \<open>responseCode >= 400\<close> raises RuntimeError with the
  backend's message, and \<open>submit_expense\<close> posts nothing after it.
\<close>

lemma check_result_api_error:
  assumes "dict_get members ''responseCode'' (JNum 0) = JNum code" "400 \<le> code"
    and "dict_get members ''responseMessage'' (JObj members) = JStr message"
  shows "check_result py_repr (JObj members) = Inl (RuntimeError (''Expensify API error: '' @ message))"
  using assms by (simp add: check_result_def)

lemma create_expense_api_error:
  assumes "backend (create_call expense) = Inr response" "is_success response"
    and "json_body response = Some (JObj members)"
    and "dict_get members ''responseCode'' (JNum 0) = JNum code" "400 \<le> code"
    and "dict_get members ''responseMessage'' (JObj members) = JStr message"
  shows "snd (create_expense st backend py_repr expense)
           = Inl (RuntimeError (''Expensify API error: '' @ message)) \<and>
         snd (submit_expense st exists backend py_repr expense)
           = Inl (RuntimeError (''Expensify API error: '' @ message)) \<and>
         requests_sent (fst (submit_expense st exists backend py_repr expense))
           = requests_sent st @ [create_call expense]"
proof -
  from request_sent[of st backend py_repr "create_call expense"] assms
  obtain now ts where c: "create_expense st backend py_repr expense =
     (st\<lparr>limiter_clock := now, limiter_timestamps := ts,
         requests_sent := requests_sent st @ [create_call expense]\<rparr>,
      Inl (RuntimeError (''Expensify API error: '' @ message)))"
    by (auto simp: create_expense_def check_result_api_error)
  then show ?thesis by (simp add: submit_expense_def)
qed

text \<open>
  Claim C3 fails on the receipt upload: \<open>upload_receipt\<close> repeats the post and the parsing
  of \<open>_request\<close> but not its check of \<open>responseCode\<close>. The payload that makes
  \<open>create_expense\<close> raise is returned by \<open>upload_receipt\<close> as its result.
\<close>

theorem upload_receipt_ignores_response_code:
  "snd (create_expense new_client backend_invalid_credentials no_repr test_expense)
     = Inl (RuntimeError ''Expensify API error: Invalid credentials'') \<and>
   snd (upload_receipt new_client all_files backend_invalid_credentials test_expense (JStr ''txn_123''))
     = Inr (JObj [(''responseCode'', JNum 410), (''responseMessage'', JStr ''Invalid credentials'')])"
  by code_simp

subsection \<open>A body that is not JSON\<close>



subsection \<open>The two steps of a submission\<close>



section \<open>Run orchestrator (cli.py)\<close>

text \<open>
  One record per plugin, as \<open>_run_async\<close> appends them. The process ends with
  \<open>sys.exit(1)\<close>, by returning, or with an exception nothing catches.
\<close>

datatype run_result =
    ResultSuccess string int string
  | ResultSkipped string
  | ResultError string error

fun status :: "run_result \<Rightarrow> string" where
  "status (ResultSuccess _ _ _) = ''success''"
| "status (ResultSkipped _) = ''skipped''"
| "status (ResultError _ _) = ''error''"

datatype exit_status = ExitSuccess | ExitFailure | Uncaught error

text \<open>
  What the plugins and the client do in a run: \<open>fetch_expense\<close>, \<open>submit_expense\<close> on a
  client of its own, and \<open>cleanup\<close>, per plugin name.
\<close>

record plugin_env =
  fetch :: "string \<Rightarrow> error + ExpenseData option"
  submit :: "string \<Rightarrow> ExpenseData \<Rightarrow> error + json"
  cleanup :: "string \<Rightarrow> error option"

text \<open>
  The plugins to run: the requested sources that the configuration enables, or else the
  enabled plugins of the configuration that are registered.
\<close>

definition select_plugins :: "(string \<times> bool) list \<Rightarrow> string list \<Rightarrow> string list \<Rightarrow> string list" where
  "select_plugins config_plugins available sources =
     (if sources \<noteq> []
      then filter (\<lambda>s. map_of config_plugins s = Some True) sources
      else map fst (filter (\<lambda>(name, on). on \<and> name \<in> set available) config_plugins))"

text \<open>
  The body of the loop: \<open>get_plugin\<close> (outside the \<open>try\<close>, KeyError for a name that is not
  registered), the \<open>try\<close> with its \<open>except Exception\<close>, and \<open>cleanup\<close> in the \<open>finally\<close>.
\<close>

definition run_plugin :: "plugin_env \<Rightarrow> bool \<Rightarrow> string \<Rightarrow> run_result" where
  "run_plugin env dry_run name =
     (case fetch env name of
        Inl e \<Rightarrow> ResultError name e
      | Inr None \<Rightarrow> ResultSkipped name
      | Inr (Some expense) \<Rightarrow>
          if \<not> dry_run then
            (case submit env name expense of
               Inl e \<Rightarrow> ResultError name e
             | Inr result \<Rightarrow> ResultSuccess name (amount expense) (currency expense))
          else ResultSuccess name (amount expense) (currency expense))"

fun run_plugins ::
  "string list \<Rightarrow> plugin_env \<Rightarrow> bool \<Rightarrow> string list \<Rightarrow> run_result list \<Rightarrow> error + run_result list" where
  "run_plugins available env dry_run [] results = Inr results"
| "run_plugins available env dry_run (name # names) results =
     (if name \<notin> set available then Inl KeyError
      else
        let results' = results @ [run_plugin env dry_run name] in
        case cleanup env name of
          Some e \<Rightarrow> Inl e
        | None \<Rightarrow> run_plugins available env dry_run names results')"

definition run_async ::
  "(string \<times> bool) list \<Rightarrow> string list \<Rightarrow> string list \<Rightarrow> plugin_env \<Rightarrow> bool
     \<Rightarrow> exit_status \<times> run_result list" where
  "run_async config_plugins available sources env dry_run =
     (let plugin_names = select_plugins config_plugins available sources in
      if plugin_names = [] then (ExitFailure, [])
      else
        (case run_plugins available env dry_run plugin_names [] of
           Inl e \<Rightarrow> (Uncaught e, [])
         | Inr results \<Rightarrow>
             let error_count = length (filter (\<lambda>r. status r = ''error'') results) in
             if error_count > 0 then (ExitFailure, results) else (ExitSuccess, results)))"

definition test_plugins :: "(string \<times> bool) list" where
  "test_plugins = [(''anthropic'', True), (''openai'', True), (''vodafone'', True), (''ghost'', True)]"

definition builtin_plugins :: "string list" where
  "builtin_plugins = [''anthropic'', ''openai'', ''vodafone'']"

definition test_fetch :: "string \<Rightarrow> error + ExpenseData option" where
  "test_fetch name =
     (if name = ''anthropic'' then Inr (Some test_expense)
      else if name = ''openai'' then Inl RetryError
      else Inr None)"

definition test_submit :: "string \<Rightarrow> ExpenseData \<Rightarrow> error + json" where
  "test_submit name expense = snd (submit_expense new_client all_files backend_full_flow no_repr expense)"

definition test_cleanup :: "string \<Rightarrow> error option" where
  "test_cleanup name = None"

definition test_env :: plugin_env where
  "test_env = \<lparr>fetch = test_fetch, submit = test_submit, cleanup = test_cleanup\<rparr>"

lemma run_plugins_results:
  assumes "set names \<subseteq> set available" "\<forall>n\<in>set names. cleanup env n = None"
  shows "run_plugins available env dry_run names results
           = Inr (results @ map (run_plugin env dry_run) names)"
  using assms by (induction names arbitrary: results) (auto simp: Let_def)

text \<open>
  Claim C6, as amended. A run over a selection that is not empty, of registered plugins
  whose cleanup does not raise, records one result per plugin and exits with failure if and
  only if one of the results has the status error; skipped plugins do not make it fail.
\<close>

theorem run_exit_status:
  assumes "select_plugins config_plugins available sources = plugin_names"
    and "plugin_names \<noteq> []"
    and "set plugin_names \<subseteq> set available"
    and "\<forall>n\<in>set plugin_names. cleanup env n = None"
  shows "\<exists>code results.
           run_async config_plugins available sources env dry_run = (code, results) \<and>
           results = map (run_plugin env dry_run) plugin_names \<and>
           (code = ExitFailure \<or> code = ExitSuccess) \<and>
           (code = ExitFailure \<longleftrightarrow> (\<exists>r\<in>set results. status r = ''error''))"
proof -
  define results where "results = map (run_plugin env dry_run) plugin_names"
  have r: "run_plugins available env dry_run plugin_names [] = Inr results"
    using run_plugins_results[OF assms(3,4), of dry_run "[]"] by (simp add: results_def)
  have "(length (filter (\<lambda>r. status r = ''error'') results) > 0)
          \<longleftrightarrow> (\<exists>r\<in>set results. status r = ''error'')"
    by (simp add: filter_empty_conv)
  then show ?thesis
    using assms(1,2) r by (auto simp: run_async_def Let_def results_def)
qed

theorem run_exit_status_witness:
  "run_async test_plugins builtin_plugins [] test_env False =
     (ExitFailure, [ResultSuccess ''anthropic'' 12345 ''USD'', ResultError ''openai'' RetryError,
                    ResultSkipped ''vodafone'']) \<and>
   run_async test_plugins builtin_plugins [''anthropic'', ''vodafone''] test_env False =
     (ExitSuccess, [ResultSuccess ''anthropic'' 12345 ''USD'', ResultSkipped ''vodafone''])"
proof -
  have s1: "select_plugins test_plugins builtin_plugins [] = [''anthropic'', ''openai'', ''vodafone'']"
    by code_simp
  have s2: "select_plugins test_plugins builtin_plugins [''anthropic'', ''vodafone''] = [''anthropic'', ''vodafone'']"
    by code_simp
  have r1: "map (run_plugin test_env False) [''anthropic'', ''openai'', ''vodafone'']
              = [ResultSuccess ''anthropic'' 12345 ''USD'', ResultError ''openai'' RetryError,
                 ResultSkipped ''vodafone'']"
    by code_simp
  have r2: "map (run_plugin test_env False) [''anthropic'', ''vodafone'']
              = [ResultSuccess ''anthropic'' 12345 ''USD'', ResultSkipped ''vodafone'']"
    by code_simp
  have c: "\<forall>n\<in>set names. cleanup test_env n = None" for names
    by (simp add: test_env_def test_cleanup_def)
  from run_exit_status[OF s1 _ _ c, of False]
  have "run_async test_plugins builtin_plugins [] test_env False =
     (ExitFailure, [ResultSuccess ''anthropic'' 12345 ''USD'', ResultError ''openai'' RetryError,
                    ResultSkipped ''vodafone''])"
    unfolding r1 by (auto simp: builtin_plugins_def)
  moreover
  from run_exit_status[OF s2 _ _ c, of False]
  have "run_async test_plugins builtin_plugins [''anthropic'', ''vodafone''] test_env False =
     (ExitSuccess, [ResultSuccess ''anthropic'' 12345 ''USD'', ResultSkipped ''vodafone''])"
    unfolding r2 by (auto simp: builtin_plugins_def)
  ultimately show ?thesis by simp
qed

text \<open>
  Claim C6 as stated fails: a run that selects no plugin exits with failure without any
  result, and a requested plugin that is configured but not registered ends the run with
  an uncaught KeyError.
\<close>

theorem run_exit_status_counterexample:
  "run_async test_plugins builtin_plugins [''unknown''] test_env False = (ExitFailure, []) \<and>
   run_async test_plugins builtin_plugins [''anthropic'', ''ghost''] test_env False = (Uncaught KeyError, [])"
  by code_simp

end
